theory Spec2Isabelle
  imports Main
begin

section \<open>Strings\<close>

text \<open>
  A JavaScript string is a list of characters; a character outside ASCII is the sequence
  of bytes that encodes it. Three operations of the platform depend on Unicode tables and
  are parameters of the model (fields of \<open>env\<close> below): \<open>String.prototype.toLowerCase\<close>,
  \<open>validator.trim\<close> (which strips every JavaScript white space character) and the
  comparison under the collation \<open>{ locale: "en", strength: 2 }\<close>.

  The ASCII fold defined here is what Express applies when it matches a literal path
  segment written in ASCII letters: the regular expression of a route is matched without
  regard to case, and that never identifies a character outside ASCII with an ASCII one.
  Together with the ASCII trim it also stands in for the platform's operations in the
  example data, where every string is ASCII.
\<close>

definition asciiLowerChar :: "char \<Rightarrow> char" where
  "asciiLowerChar c =
     (let n = (of_char c :: nat) in if 65 \<le> n \<and> n \<le> 90 then char_of (n + 32) else c)"

definition asciiLowerCase :: "string \<Rightarrow> string" where
  "asciiLowerCase s = map asciiLowerChar s"

definition asciiSpace :: "char \<Rightarrow> bool" where
  "asciiSpace c = (let n = (of_char c :: nat) in (9 \<le> n \<and> n \<le> 13) \<or> n = 32)"

definition asciiTrim :: "string \<Rightarrow> string" where
  "asciiTrim s = rev (dropWhile asciiSpace (rev (dropWhile asciiSpace s)))"

text \<open>\<open>x ?? ""\<close>: an absent (undefined or null) field reads as the default.\<close>

definition nullish :: "'a option \<Rightarrow> 'a \<Rightarrow> 'a" where
  "nullish x d = (case x of None \<Rightarrow> d | Some v \<Rightarrow> v)"

text \<open>Truthiness of an optional string: undefined and the empty string are falsy.\<close>

definition truthy :: "string option \<Rightarrow> bool" where
  "truthy x = (case x of None \<Rightarrow> False | Some v \<Rightarrow> v \<noteq> [])"

section \<open>Data model\<close>

text \<open>
  A user document with the fields the controllers read and write. An optional field that
  is \<open>None\<close> is absent from the object (not loaded, deleted, or set to undefined). Dates
  are milliseconds since the epoch.
\<close>

record user_doc =
  user_id :: string
  first_name :: string
  last_name :: string
  email :: string
  password :: "string option"
  role :: string
  isVerified :: bool
  verificationToken :: "string option"
  verificationTokenExpires :: "nat option"

text \<open>A password-reset token record of the Token collection, keyed by user id.\<close>

record token_doc =
  token_userId :: string
  token_value :: string

record store =
  users :: "user_doc list"
  tokens :: "token_doc list"

section \<open>Responses\<close>

record cookie =
  cookie_name :: string
  cookie_value :: string
  httpOnly :: bool
  secure :: "bool option"
  sameSite :: string
  path :: "string option"
  maxAge :: "nat option"
  expires :: "nat option"

record json_body =
  success :: bool
  data_user :: "user_doc option"
  data_token :: "string option"
  message :: "string option"

text \<open>
  What a handler does with the request: it hands an \<open>ErrorResponse message statusCode\<close>
  to \<open>next\<close>, or it sets cookies and answers \<open>res.status(n).json(body)\<close>, or an awaited
  collaborator rejects and \<open>asyncHandler\<close> forwards the rejection.
\<close>

datatype outcome =
    ErrorResponse string nat
  | Json nat json_body "cookie list"
  | Rejected

text \<open>
  Modelled from the spec: the central error handler is not under src/. It converts an
  error raised through the request pipeline into a JSON error envelope carrying the
  error's status code and message; unexpected failures yield 500.
\<close>

fun statusCode :: "outcome \<Rightarrow> nat" where
  "statusCode (ErrorResponse m c) = c"
| "statusCode (Json c b cs) = c"
| "statusCode Rejected = 500"

fun errorMessage :: "outcome \<Rightarrow> string option" where
  "errorMessage (ErrorResponse m c) = Some m"
| "errorMessage (Json c b cs) = None"
| "errorMessage Rejected = None"

fun cookiesSet :: "outcome \<Rightarrow> cookie list" where
  "cookiesSet (Json c b cs) = cs"
| "cookiesSet (ErrorResponse m c) = []"
| "cookiesSet Rejected = []"

fun responseBody :: "outcome \<Rightarrow> json_body option" where
  "responseBody (Json c b cs) = Some b"
| "responseBody (ErrorResponse m c) = None"
| "responseBody Rejected = None"

section \<open>Collaborators\<close>

text \<open>
  The handlers call into libraries and into modules of the repository that are not under
  src/ (the user model and the auth service). They are parameters of the model:
  \<^item> \<open>trim\<close>: \<open>validator.trim\<close> without a character set;
  \<^item> \<open>toLowerCase\<close>: \<open>String.prototype.toLowerCase\<close>;
  \<^item> \<open>collationEqual\<close>: whether MongoDB finds a stored string (first argument) equal
    to a queried one under the collation \<open>{ locale: "en", strength: 2 }\<close>;
  \<^item> \<open>isEmail\<close>: \<open>validator.isEmail\<close>;
  \<^item> \<open>isValidObjectId\<close>: whether Mongoose can cast a string to an ObjectId (a lookup by
    an id that cannot be cast rejects);
  \<^item> \<open>newObjectId\<close>: the \<open>_id\<close> given to a created document;
  \<^item> \<open>schemaValid\<close>: the schema validation run by \<open>User.create\<close>;
  \<^item> \<open>hashPassword\<close>: the model's pre-save hook;
  \<^item> \<open>verifyToken\<close>: the check of a session token's signature and expiry, giving the
    user id it encodes;
  \<^item> \<open>matchPassword\<close>, \<open>generateToken\<close>, \<open>checkAdminAccess\<close>,
    \<open>checkUserRoleInOrganization\<close>, \<open>sendVerificationEmail\<close>,
    \<open>sendPasswordResetEmail\<close>: the auth service; \<open>None\<close> (or \<open>MailError\<close>,
    \<open>MailFailure\<close>) is a rejected promise;
  \<^item> \<open>production\<close>: \<open>process.env.NODE_ENV === "production"\<close>.
\<close>

datatype reset_mail =
    MailSent token_doc json_body
  | MailError string
  | MailFailure

record env =
  trim :: "string \<Rightarrow> string"
  toLowerCase :: "string \<Rightarrow> string"
  collationEqual :: "string \<Rightarrow> string \<Rightarrow> bool"
  isEmail :: "string \<Rightarrow> bool"
  isValidObjectId :: "string \<Rightarrow> bool"
  newObjectId :: "user_doc list \<Rightarrow> string"
  schemaValid :: "user_doc \<Rightarrow> bool"
  hashPassword :: "string \<Rightarrow> string"
  matchPassword :: "string \<Rightarrow> user_doc \<Rightarrow> bool"
  generateToken :: "user_doc \<Rightarrow> string"
  verifyToken :: "string \<Rightarrow> string option"
  checkAdminAccess :: "string \<Rightarrow> bool option"
  checkUserRoleInOrganization :: "string \<Rightarrow> string \<Rightarrow> bool option"
  sendVerificationEmail :: "user_doc \<Rightarrow> nat \<Rightarrow> (string \<times> nat) option"
  sendPasswordResetEmail :: "user_doc \<Rightarrow> reset_mail"
  production :: bool

text \<open>\<open>validator.trim(x ?? "")\<close> and \<open>validator.trim(email ?? "").toLowerCase()\<close>\<close>

definition trimField :: "env \<Rightarrow> string option \<Rightarrow> string" where
  "trimField env x = trim env (nullish x [])"

definition normalizeEmail :: "env \<Rightarrow> string option \<Rightarrow> string" where
  "normalizeEmail env x = toLowerCase env (trim env (nullish x []))"

text \<open>
  What the platform guarantees about letter case and white space: lower-casing or
  trimming a second time changes nothing, the two commute (no white space character has
  a case), and only the empty string has an empty lower-case form.
\<close>

definition stringLaws :: "env \<Rightarrow> bool" where
  "stringLaws env =
     ((\<forall>x. toLowerCase env (toLowerCase env x) = toLowerCase env x)
      \<and> (\<forall>x. trim env (trim env x) = trim env x)
      \<and> (\<forall>x. trim env (toLowerCase env x) = toLowerCase env (trim env x))
      \<and> (\<forall>x. (toLowerCase env x = []) = (x = [])))"

text \<open>
  What a collation of strength 2 guarantees: it ignores letter case, so two strings
  with the same lower-case form compare equal; and two strings that compare equal to the
  same string compare equal to each other.
\<close>

definition collationLaws :: "env \<Rightarrow> bool" where
  "collationLaws env =
     ((\<forall>a b. toLowerCase env a = toLowerCase env b \<longrightarrow> collationEqual env a b)
      \<and> (\<forall>a b c. collationEqual env a c \<longrightarrow> collationEqual env b c
             \<longrightarrow> collationEqual env a b))"

section \<open>Queries on the user collection\<close>

text \<open>
  \<open>User.findOne({ email })\<close> compares the stored string with the given one exactly;
  with \<open>.collation({ locale: "en", strength: 2 })\<close> it compares them under that
  collation. Both return the first matching document.
\<close>

definition findOne_email :: "string \<Rightarrow> user_doc list \<Rightarrow> user_doc option" where
  "findOne_email e us = find (\<lambda>u. email u = e) us"

definition findOne_email_collation :: "env \<Rightarrow> string \<Rightarrow> user_doc list \<Rightarrow> user_doc option" where
  "findOne_email_collation env e us = find (\<lambda>u. collationEqual env (email u) e) us"

text \<open>
  Email uniqueness up to letter case, as a property of the stored emails in order of
  creation: no email compares equal, under the collation, to one stored after it.
\<close>

fun collationDistinct :: "env \<Rightarrow> string list \<Rightarrow> bool" where
  "collationDistinct env [] = True"
| "collationDistinct env (x # xs) =
     (list_all (\<lambda>y. \<not> collationEqual env x y) xs \<and> collationDistinct env xs)"

definition findById :: "string \<Rightarrow> user_doc list \<Rightarrow> user_doc option" where
  "findById i us = find (\<lambda>u. user_id u = i) us"

text \<open>
  The password is excluded from query results unless the query says
  \<open>.select("+password")\<close>, as login does; \<open>select_default\<close> is a query without it.
  The verification token and its expiry belong to every query result that does not
  exclude them: \<open>verifyEmail\<close> reads both from a plain \<open>findById\<close>.
\<close>

definition select_default :: "user_doc \<Rightarrow> user_doc" where
  "select_default u = u\<lparr>password := None\<rparr>"

text \<open>\<open>.select("-password -verificationToken -verificationTokenExpires")\<close>\<close>

definition select_getMe :: "user_doc \<Rightarrow> user_doc" where
  "select_getMe u =
     u\<lparr>password := None, verificationToken := None, verificationTokenExpires := None\<rparr>"

text \<open>\<open>doc.save()\<close> writes the modified paths of a loaded document back to the stored one.\<close>

definition updateById :: "string \<Rightarrow> (user_doc \<Rightarrow> user_doc) \<Rightarrow> user_doc list \<Rightarrow> user_doc list" where
  "updateById i f us = map (\<lambda>v. if user_id v = i then f v else v) us"

section \<open>Auth controller\<close>

text \<open>
  Request bodies have the fields their interfaces declare: each is a string, or absent
  (undefined or null). Query parameters are strings or absent.
\<close>

record RegisterBody =
  body_first_name :: "string option"
  body_last_name :: "string option"
  body_email :: "string option"
  body_password :: "string option"
  body_role :: "string option"

record LoginBody =
  login_email :: "string option"
  login_password :: "string option"

record request =
  req_user :: "string option"
  cookies :: "string \<Rightarrow> string option"
  params_organizationId :: "string option"

definition thirtyDays :: nat where
  "thirtyDays = 30 * 24 * 60 * 60 * 1000"

subsection \<open>register\<close>

text \<open>
  The document \<open>User.create\<close> builds from the fields the handler passes: a new
  \<open>_id\<close>, the password hashed by the pre-save hook, the schema defaults for the fields
  not given.
\<close>

definition User_create_doc ::
  "env \<Rightarrow> user_doc list \<Rightarrow> string \<Rightarrow> string \<Rightarrow> string \<Rightarrow> string \<Rightarrow> string \<Rightarrow> user_doc" where
  "User_create_doc env us first_name' last_name' email' password' role' =
     \<lparr>user_id = newObjectId env us,
      first_name = first_name',
      last_name = last_name',
      email = email',
      password = Some (hashPassword env password'),
      role = role',
      isVerified = False,
      verificationToken = None,
      verificationTokenExpires = None\<rparr>"

text \<open>
  Modelled from the spec: \<open>authService.sendVerificationEmail\<close> is not under src/. It
  dispatches a verification email containing a token and the user id; the token and its
  expiry are the ones \<open>verifyEmail\<close> later reads from the user document, so a successful
  call (\<open>Some (token, expiry)\<close>) stores them on the user it was given.
\<close>

definition setVerificationToken :: "string \<Rightarrow> nat \<Rightarrow> user_doc \<Rightarrow> user_doc" where
  "setVerificationToken tok exp u =
     u\<lparr>verificationToken := Some tok, verificationTokenExpires := Some exp\<rparr>"

definition register :: "env \<Rightarrow> nat \<Rightarrow> store \<Rightarrow> RegisterBody \<Rightarrow> outcome \<times> store" where
  "register env now s body =
     (let first_name' = trimField env (body_first_name body);
          last_name' = trimField env (body_last_name body);
          email' = normalizeEmail env (body_email body);
          password' = trimField env (body_password body)
      in if first_name' = [] \<or> last_name' = [] \<or> email' = [] \<or> password' = []
         then (ErrorResponse ''All fields are required'' 400, s)
         else if \<not> isEmail env email'
         then (ErrorResponse ''Invalid email format'' 400, s)
         else (case findOne_email_collation env email' (users s) of
                 Some existingUser \<Rightarrow> (ErrorResponse ''Email already registered'' 400, s)
               | None \<Rightarrow>
                  (let user = User_create_doc env (users s) first_name' last_name' email' password'
                                (nullish (body_role body) ''user'')
                   in if \<not> schemaValid env user then (Rejected, s)
                      else (let s1 = s\<lparr>users := users s @ [user]\<rparr>
                            in case sendVerificationEmail env user now of
                                 None \<Rightarrow> (Rejected, s1)
                               | Some (tok, exp) \<Rightarrow>
                                  (let userWithoutPassword =
                                         (setVerificationToken tok exp user)\<lparr>password := None\<rparr>
                                   in (Json 201
                                         \<lparr>success = True,
                                          data_user = Some userWithoutPassword,
                                          data_token = None,
                                          message = Some ''Registration successful! Please check your email to verify your account.''\<rparr>
                                         [],
                                       s1\<lparr>users := updateById (user_id user)
                                                      (setVerificationToken tok exp) (users s1)\<rparr>))))))"

subsection \<open>login\<close>

definition login :: "env \<Rightarrow> store \<Rightarrow> LoginBody \<Rightarrow> outcome" where
  "login env s body =
     (let email' = normalizeEmail env (login_email body);
          password' = trimField env (login_password body)
      in if email' = [] \<or> password' = []
         then ErrorResponse ''Please provide an email and password'' 400
         else if \<not> isEmail env email'
         then ErrorResponse ''Invalid email format'' 400
         else (case findOne_email_collation env email' (users s) of
                 None \<Rightarrow> ErrorResponse ''Invalid credentials'' 401
               | Some user \<Rightarrow>
                  if \<not> matchPassword env password' user
                  then ErrorResponse ''Invalid credentials'' 401
                  else (let token = generateToken env user;
                            userWithoutPassword = user\<lparr>password := None\<rparr>
                        in Json 200
                             \<lparr>success = True,
                              data_user = Some userWithoutPassword,
                              data_token = Some token,
                              message = None\<rparr>
                             [\<lparr>cookie_name = ''token'', cookie_value = token,
                               httpOnly = True, secure = Some (production env),
                               sameSite = ''none'', path = None,
                               maxAge = Some thirtyDays, expires = None\<rparr>])))"

subsection \<open>adminLogin\<close>

definition adminLogin :: "env \<Rightarrow> store \<Rightarrow> LoginBody \<Rightarrow> outcome" where
  "adminLogin env s body =
     (let email' = normalizeEmail env (login_email body);
          password' = trimField env (login_password body)
      in if email' = [] \<or> password' = []
         then ErrorResponse ''Please provide an email and password'' 400
         else if \<not> isEmail env email'
         then ErrorResponse ''Invalid email format'' 400
         else (case findOne_email_collation env email' (users s) of
                 None \<Rightarrow> ErrorResponse ''Invalid credentials'' 401
               | Some user \<Rightarrow>
                  if \<not> matchPassword env password' user
                  then ErrorResponse ''Invalid credentials'' 401
                  else (case checkAdminAccess env (user_id user) of
                          None \<Rightarrow> ErrorResponse ''Admin access verification failed'' 500
                        | Some hasAdminAccess \<Rightarrow>
                           if \<not> hasAdminAccess
                           then ErrorResponse ''Unauthorized access to admin dashboard'' 403
                           else (let token = generateToken env user;
                                     userWithoutPassword = user\<lparr>password := None\<rparr>
                                 in Json 200
                                      \<lparr>success = True,
                                       data_user = Some userWithoutPassword,
                                       data_token = None,
                                       message = None\<rparr>
                                      [\<lparr>cookie_name = ''admin_token'', cookie_value = token,
                                        httpOnly = True, secure = Some (production env),
                                        sameSite = ''lax'', path = Some ''/'',
                                        maxAge = Some thirtyDays, expires = None\<rparr>,
                                       \<lparr>cookie_name = ''token'', cookie_value = token,
                                        httpOnly = True, secure = Some (production env),
                                        sameSite = ''lax'', path = Some ''/'',
                                        maxAge = Some thirtyDays, expires = None\<rparr>]))))"

subsection \<open>logout\<close>

text \<open>\<open>new Date(0)\<close> is the epoch, millisecond 0.\<close>

definition expiredCookie :: "string \<Rightarrow> cookie" where
  "expiredCookie n =
     \<lparr>cookie_name = n, cookie_value = [], httpOnly = True, secure = None,
      sameSite = ''lax'', path = None, maxAge = None, expires = Some 0\<rparr>"

definition logout :: "request \<Rightarrow> outcome" where
  "logout req =
     Json 200
       \<lparr>success = True, data_user = None, data_token = None,
        message = Some ''Logged out successfully''\<rparr>
       [expiredCookie ''token'', expiredCookie ''admin_token'', expiredCookie ''org_token'']"

subsection \<open>getMe\<close>

definition getMe :: "env \<Rightarrow> store \<Rightarrow> request \<Rightarrow> outcome" where
  "getMe env s req =
     (if \<not> truthy (req_user req) then ErrorResponse ''User not authenticated'' 401
      else if \<not> isValidObjectId env (the (req_user req)) then Rejected
      else (case map_option select_getMe (findById (the (req_user req)) (users s)) of
              None \<Rightarrow> ErrorResponse ''User not found'' 404
            | Some user \<Rightarrow>
               (let adminCheck =
                      (if truthy (cookies req ''admin_token'')
                       then (case checkAdminAccess env (user_id user) of
                               None \<Rightarrow> Some (ErrorResponse ''Admin access verification failed'' 500)
                             | Some hasAdminAccess \<Rightarrow>
                                if \<not> hasAdminAccess
                                then Some (ErrorResponse ''Not authorized as admin'' 403)
                                else None)
                       else None);
                    orgCheck =
                      (if truthy (cookies req ''org_token'') \<and> truthy (params_organizationId req)
                       then (case checkUserRoleInOrganization env (user_id user)
                                    (the (params_organizationId req)) of
                               None \<Rightarrow> Some (ErrorResponse ''Organization access verification failed'' 403)
                             | Some hasOrgAccess \<Rightarrow>
                                if \<not> hasOrgAccess
                                then Some (ErrorResponse ''Not authorized as organization owner'' 403)
                                else None)
                       else None)
                in case adminCheck of
                     Some e \<Rightarrow> e
                   | None \<Rightarrow>
                      (case orgCheck of
                         Some e \<Rightarrow> e
                       | None \<Rightarrow>
                          Json 200
                            \<lparr>success = True, data_user = Some user, data_token = None,
                             message = None\<rparr>
                            []))))"

subsection \<open>forgotPassword\<close>

text \<open>
  Modelled from the spec: \<open>authService.sendPasswordResetEmail\<close> is not under src/. It
  issues a new reset token record for the user by email; \<open>MailSent t result\<close> is the
  record it stores and the JSON result the handler passes on, \<open>MailError m\<close> a thrown
  \<open>Error\<close> with message \<open>m\<close>, \<open>MailFailure\<close> any other thrown value.
\<close>

definition forgotPassword :: "env \<Rightarrow> store \<Rightarrow> string option \<Rightarrow> outcome \<times> store" where
  "forgotPassword env s email' =
     (if \<not> truthy email' then (ErrorResponse ''Please provide an email'' 400, s)
      else (case map_option select_default (findOne_email (the email') (users s)) of
              None \<Rightarrow> (ErrorResponse ''User not found'' 404, s)
            | Some user \<Rightarrow>
               (let s1 = (case find (\<lambda>t. token_userId t = user_id user) (tokens s) of
                            None \<Rightarrow> s
                          | Some token \<Rightarrow> s\<lparr>tokens := remove1 token (tokens s)\<rparr>)
                in case sendPasswordResetEmail env user of
                     MailSent t result \<Rightarrow> (Json 200 result [], s1\<lparr>tokens := tokens s1 @ [t]\<rparr>)
                   | MailError m \<Rightarrow>
                      (ErrorResponse (''Failed to send password reset email: '' @ m) 500, s1)
                   | MailFailure \<Rightarrow>
                      (ErrorResponse ''An unexpected error occurred while sending reset email'' 500,
                       s1))))"

subsection \<open>verifyEmail\<close>

text \<open>
  \<open>new Date() > user.verificationTokenExpires\<close>: a comparison with undefined is false.
\<close>

definition dateAfter :: "nat \<Rightarrow> nat option \<Rightarrow> bool" where
  "dateAfter now d = (case d of None \<Rightarrow> False | Some t \<Rightarrow> now > t)"

definition verifyEmail ::
  "env \<Rightarrow> nat \<Rightarrow> store \<Rightarrow> string option \<Rightarrow> string option \<Rightarrow> outcome \<times> store" where
  "verifyEmail env now s token' id' =
     (if \<not> truthy token' \<or> \<not> truthy id'
      then (ErrorResponse ''Invalid verification link'' 400, s)
      else if \<not> isValidObjectId env (the id') then (Rejected, s)
      else (case map_option select_default (findById (the id') (users s)) of
              None \<Rightarrow> (ErrorResponse ''User not found'' 404, s)
            | Some user \<Rightarrow>
               if verificationToken user \<noteq> token' \<or> dateAfter now (verificationTokenExpires user)
               then (ErrorResponse ''Invalid or expired token'' 400, s)
               else (Json 200
                       \<lparr>success = True, data_user = None, data_token = None,
                        message = Some ''Email verified successfully!''\<rparr>
                       [],
                     s\<lparr>users := updateById (user_id user)
                                  (\<lambda>u. u\<lparr>isVerified := True,
                                          verificationToken := None,
                                          verificationTokenExpires := None\<rparr>)
                                  (users s)\<rparr>)))"

section \<open>User routes\<close>

datatype http_method = GET | PUT

datatype middleware = protect

datatype controller =
    getUsersAdmin
  | getUserByIdAdmin
  | getCurrentUserProfile
  | updateUserProfile
  | changePassword
  | getUserOrganizations

datatype segment = Literal string | Param string

record route =
  route_method :: http_method
  route_path :: "segment list"
  route_chain :: "middleware list"
  route_handler :: controller

text \<open>
  The router of the user module, in registration order. The \<open>checkPermission\<close> calls
  on the two admin routes are commented out in the source, so no route has one.
\<close>

definition router :: "route list" where
  "router =
     [\<lparr>route_method = GET, route_path = [Literal ''admin''],
       route_chain = [protect], route_handler = getUsersAdmin\<rparr>,
      \<lparr>route_method = GET, route_path = [Param ''userId'', Literal ''admin''],
       route_chain = [], route_handler = getUserByIdAdmin\<rparr>,
      \<lparr>route_method = GET, route_path = [Literal ''me''],
       route_chain = [protect], route_handler = getCurrentUserProfile\<rparr>,
      \<lparr>route_method = PUT, route_path = [Literal ''me''],
       route_chain = [protect], route_handler = updateUserProfile\<rparr>,
      \<lparr>route_method = PUT, route_path = [Literal ''change-password''],
       route_chain = [protect], route_handler = changePassword\<rparr>,
      \<lparr>route_method = GET, route_path = [Literal ''organizations''],
       route_chain = [protect], route_handler = getUserOrganizations\<rparr>]"

text \<open>
  A request to the router: its method, the segments of its path below the mount point,
  and its cookies. Express matches a literal segment without regard to letter case (the
  router is created without \<open>caseSensitive\<close>) and a parameter against any non-empty
  segment.
\<close>

record http_request =
  http_method :: http_method
  http_path :: "string list"
  http_cookies :: "string \<Rightarrow> string option"

fun matchSegment :: "segment \<Rightarrow> string \<Rightarrow> bool" where
  "matchSegment (Literal l) x = (asciiLowerCase l = asciiLowerCase x)"
| "matchSegment (Param p) x = (x \<noteq> [])"

definition matchRoute :: "http_request \<Rightarrow> route \<Rightarrow> bool" where
  "matchRoute req r =
     (route_method r = http_method req \<and> list_all2 matchSegment (route_path r) (http_path req))"

text \<open>
  Modelled from the spec: the \<open>protect\<close> middleware (auth.middleware) is not under
  src/. It extracts and verifies the session token from the cookie; on a valid token it
  attaches the decoded identity to the request and lets the handler proceed; on a
  missing, invalid or expired token it short-circuits with an unauthorized response.
\<close>

fun runChain ::
  "env \<Rightarrow> (string \<Rightarrow> string option) \<Rightarrow> middleware list \<Rightarrow> string option \<Rightarrow> string option option" where
  "runChain env ck [] identity = Some identity"
| "runChain env ck (protect # ms) identity =
     (case ck ''token'' of
        None \<Rightarrow> None
      | Some t \<Rightarrow>
         (case verifyToken env t of
            None \<Rightarrow> None
          | Some i \<Rightarrow> runChain env ck ms (Some i)))"

datatype dispatched =
    Handled controller "string option"
  | Unauthorized
  | NoRoute

definition dispatch :: "env \<Rightarrow> http_request \<Rightarrow> dispatched" where
  "dispatch env req =
     (case find (matchRoute req) router of
        None \<Rightarrow> NoRoute
      | Some r \<Rightarrow>
         (case runChain env (http_cookies req) (route_chain r) None of
            None \<Rightarrow> Unauthorized
          | Some identity \<Rightarrow> Handled (route_handler r) identity))"

section \<open>Example data\<close>

text \<open>
  A concrete instance of the collaborators and a few stored users and requests, on which
  the handlers are evaluated below. Trimming, lower-casing and the collation are the ASCII
  ones. The stand-in hash prefixes the password, the stand-in
  session token prefixes the user id, and only the user \<open>admin1\<close> holds the admin
  dashboard permission.
\<close>

definition example_env :: env where
  "example_env =
     \<lparr>trim = asciiTrim,
      toLowerCase = asciiLowerCase,
      collationEqual = (\<lambda>a b. asciiLowerCase a = asciiLowerCase b),
      isEmail = (\<lambda>e. CHR ''@'' \<in> set e),
      isValidObjectId = (\<lambda>i. True),
      newObjectId = (\<lambda>us. replicate (Suc (length us)) CHR ''i''),
      schemaValid = (\<lambda>u. True),
      hashPassword = (\<lambda>p. ''hash:'' @ p),
      matchPassword = (\<lambda>p u. password u = Some (''hash:'' @ p)),
      generateToken = (\<lambda>u. ''jwt:'' @ user_id u),
      verifyToken = (\<lambda>t. if take 4 t = ''jwt:'' then Some (drop 4 t) else None),
      checkAdminAccess = (\<lambda>i. Some (i = ''admin1'')),
      checkUserRoleInOrganization = (\<lambda>i orgId. Some False),
      sendVerificationEmail = (\<lambda>u now. Some (''vtok'', now + 1000)),
      sendPasswordResetEmail =
        (\<lambda>u. MailSent \<lparr>token_userId = user_id u, token_value = ''rtok''\<rparr>
                       \<lparr>success = True, data_user = None, data_token = None,
                        message = Some ''Password reset email sent''\<rparr>),
      production = False\<rparr>"

definition emptyStore :: store where
  "emptyStore = \<lparr>users = [], tokens = []\<rparr>"

text \<open>A registered, not yet verified user, as \<open>register\<close> leaves her in the store.\<close>

definition ann :: user_doc where
  "ann = \<lparr>user_id = ''u1'', first_name = ''Ann'', last_name = ''Lee'',
          email = ''a@test.com'', password = Some ''hash:Passw0rd!'', role = ''user'',
          isVerified = False, verificationToken = Some ''vtok'',
          verificationTokenExpires = Some 1000\<rparr>"

definition root :: user_doc where
  "root = \<lparr>user_id = ''admin1'', first_name = ''Ro'', last_name = ''Ot'',
           email = ''root@test.com'', password = Some ''hash:S3cret!'', role = ''admin'',
           isVerified = True, verificationToken = None,
           verificationTokenExpires = None\<rparr>"

definition annStore :: store where
  "annStore = \<lparr>users = [ann], tokens = []\<rparr>"

definition staffStore :: store where
  "staffStore = \<lparr>users = [ann, root], tokens = []\<rparr>"

definition registerBody :: "string \<Rightarrow> string \<Rightarrow> string option \<Rightarrow> RegisterBody" where
  "registerBody fn e r =
     \<lparr>body_first_name = Some fn, body_last_name = Some ''Lee'', body_email = Some e,
      body_password = Some ''Passw0rd!'', body_role = r\<rparr>"

definition loginBody :: "string \<Rightarrow> string \<Rightarrow> LoginBody" where
  "loginBody e p = \<lparr>login_email = Some e, login_password = Some p\<rparr>"

definition anonymousRequest :: "string list \<Rightarrow> http_request" where
  "anonymousRequest p = \<lparr>http_method = GET, http_path = p, http_cookies = (\<lambda>n. None)\<rparr>"

definition adminSessionRequest :: request where
  "adminSessionRequest =
     \<lparr>req_user = Some ''admin1'',
      cookies = (\<lambda>n. if n = ''admin_token'' \<or> n = ''token'' then Some ''jwt:admin1'' else None),
      params_organizationId = None\<rparr>"

lemmas string_eval =
  asciiLowerCase_def asciiLowerChar_def asciiTrim_def asciiSpace_def char_of_def bit_Suc_0_iff Let_def
  nullish_def trimField_def normalizeEmail_def truthy_def

lemmas example_eval =
  example_env_def emptyStore_def ann_def root_def annStore_def staffStore_def
  registerBody_def loginBody_def anonymousRequest_def adminSessionRequest_def

section \<open>ASCII letter case and trimming\<close>

lemma asciiLowerChar_idem: "asciiLowerChar (asciiLowerChar c) = asciiLowerChar c"
  by (auto simp: asciiLowerChar_def Let_def)

lemma asciiLowerCase_idem: "asciiLowerCase (asciiLowerCase s) = asciiLowerCase s"
  by (simp add: asciiLowerCase_def asciiLowerChar_idem)

lemma asciiSpace_asciiLowerChar: "asciiSpace (asciiLowerChar c) = asciiSpace c"
  by (auto simp: asciiLowerChar_def asciiSpace_def Let_def)

lemma dropWhile_asciiLowerCase:
  "dropWhile asciiSpace (asciiLowerCase s) = asciiLowerCase (dropWhile asciiSpace s)"
  by (induction s) (simp_all add: asciiLowerCase_def asciiSpace_asciiLowerChar)

lemma asciiTrim_asciiLowerCase: "asciiTrim (asciiLowerCase s) = asciiLowerCase (asciiTrim s)"
proof -
  have "rev (asciiLowerCase t) = asciiLowerCase (rev t)" for t
    by (simp add: asciiLowerCase_def rev_map)
  then show ?thesis
    by (simp add: asciiTrim_def dropWhile_asciiLowerCase)
qed

lemma dropWhile_trimmed_front:
  "dropWhile P (rev (dropWhile P (rev (dropWhile P s)))) = rev (dropWhile P (rev (dropWhile P s)))"
proof -
  define t where "t = dropWhile P s"
  define r where "r = rev (dropWhile P (rev t))"
  have head: "\<not> P (hd t)" if "t \<noteq> []"
    using that unfolding t_def by (rule hd_dropWhile)
  have "rev (r @ rev (takeWhile P (rev t))) = rev t"
    by (simp add: r_def)
  then have split: "r @ rev (takeWhile P (rev t)) = t"
    by (simp only: rev_is_rev_conv)
  have "dropWhile P r = r"
  proof (cases r)
    case Nil
    then show ?thesis by simp
  next
    case (Cons x xs)
    with split have "t = x # xs @ rev (takeWhile P (rev t))"
      by simp
    then have "t \<noteq> []" and "hd t = x"
      by (metis list.distinct(1), metis list.sel(1))
    with head have "\<not> P x"
      by simp
    with Cons show ?thesis
      by simp
  qed
  then show ?thesis
    unfolding r_def t_def .
qed

lemma asciiTrim_idem: "asciiTrim (asciiTrim s) = asciiTrim s"
  by (simp add: asciiTrim_def dropWhile_trimmed_front)

text \<open>The ASCII operations of the example data keep the laws of the platform.\<close>

lemma example_env_stringLaws: "stringLaws example_env"
  by (simp add: stringLaws_def example_env_def asciiLowerCase_idem asciiTrim_idem
                asciiTrim_asciiLowerCase)
     (simp add: asciiLowerCase_def)

lemma example_env_collationLaws: "collationLaws example_env"
  by (simp add: collationLaws_def example_env_def)

section \<open>Normalized emails\<close>

text \<open>The email Register stores is trimmed and in lower case.\<close>

lemma normalizeEmail_normal:
  assumes "stringLaws env"
  shows "trim env (normalizeEmail env x) = normalizeEmail env x
         \<and> toLowerCase env (normalizeEmail env x) = normalizeEmail env x"
  using assms by (simp add: stringLaws_def normalizeEmail_def)

text \<open>
  A request email that differs from a stored, trimmed email only in letter case is, once
  normalized by the handler, still equal to the stored one up to letter case, and the
  collation finds the two equal.
\<close>

lemma normalizeEmail_case_variant:
  assumes "stringLaws env"
      and "toLowerCase env e = toLowerCase env (email u)"
      and "trim env (email u) = email u"
  shows "toLowerCase env (normalizeEmail env (Some e)) = toLowerCase env (email u)"
proof -
  have "toLowerCase env (normalizeEmail env (Some e)) = toLowerCase env (trim env e)"
    using assms(1) by (simp add: stringLaws_def normalizeEmail_def nullish_def)
  also have "\<dots> = trim env (toLowerCase env e)"
    using assms(1) by (simp add: stringLaws_def)
  also have "\<dots> = trim env (toLowerCase env (email u))"
    using assms(2) by simp
  also have "\<dots> = toLowerCase env (trim env (email u))"
    using assms(1) by (simp add: stringLaws_def)
  also have "\<dots> = toLowerCase env (email u)"
    using assms(3) by simp
  finally show ?thesis .
qed

lemma collationEqual_case_variant:
  assumes "stringLaws env" and "collationLaws env"
      and "toLowerCase env e = toLowerCase env (email u)"
      and "trim env (email u) = email u"
  shows "collationEqual env (email u) (normalizeEmail env (Some e))"
proof -
  have "toLowerCase env (email u) = toLowerCase env (normalizeEmail env (Some e))"
    using normalizeEmail_case_variant[OF assms(1,3,4)] by simp
  with assms(2) show ?thesis
    by (simp add: collationLaws_def)
qed

section \<open>Lookups\<close>

lemma findOne_email_collation_finds:
  assumes "u \<in> set us" and "collationEqual env (email u) e"
  shows "findOne_email_collation env e us \<noteq> None"
  using assms by (auto simp: findOne_email_collation_def find_None_iff)

lemma find_only_match:
  assumes "u \<in> set us" and "P u" and "\<And>v. v \<in> set us \<Longrightarrow> P v \<Longrightarrow> v = u"
  shows "find P us = Some u"
  using assms
proof (induction us)
  case Nil
  then show ?case
    by simp
next
  case (Cons x xs)
  show ?case
  proof (cases "P x")
    case True
    then have "x = u"
      using Cons.prems(3)[of x] by simp
    with True show ?thesis
      by simp
  next
    case False
    with Cons.prems(1,2) have "u \<in> set xs"
      by auto
    moreover have "v = u" if "v \<in> set xs" and "P v" for v
      using that Cons.prems(3)[of v] by simp
    ultimately have "find P xs = Some u"
      using Cons.prems(2) Cons.IH by blast
    with False show ?thesis
      by simp
  qed
qed

lemma findById_user_id: "findById i us = Some u \<Longrightarrow> user_id u = i"
  by (auto simp: findById_def dest: find_Some_iff[THEN iffD1])

lemma findById_updateById:
  assumes "\<And>v. user_id (f v) = user_id v"
  shows "findById i (updateById i f us) = map_option f (findById i us)"
  using assms by (induction us) (simp_all add: findById_def updateById_def)

text \<open>Stored emails that are unique up to letter case.\<close>

lemma collationDistinct_append:
  "collationDistinct env (xs @ [n])
     = (collationDistinct env xs \<and> list_all (\<lambda>x. \<not> collationEqual env x n) xs)"
  by (induction xs) auto

lemma collationDistinct_clash:
  assumes "collationDistinct env xs" and "a \<in> set xs" and "b \<in> set xs"
      and "collationEqual env a b" and "collationEqual env b a"
  shows "a = b"
  using assms by (induction xs) (auto simp: list_all_iff)

lemma collationDistinct_distinct:
  assumes "collationDistinct env xs" and "\<And>x. collationEqual env x x"
  shows "distinct xs"
  using assms by (induction xs) (auto simp: list_all_iff)

lemma collationLaws_refl: "collationLaws env \<Longrightarrow> collationEqual env x x"
  by (simp add: collationLaws_def)

section \<open>Register\<close>

text \<open>
  Once a request is past the field checks, the duplicate check and the schema, the store
  holds the old users followed by the created document; a later write only touches the
  verification-token fields.
\<close>

lemma register_created:
  assumes "trimField env (body_first_name body) \<noteq> []"
      and "trimField env (body_last_name body) \<noteq> []"
      and "normalizeEmail env (body_email body) \<noteq> []"
      and "trimField env (body_password body) \<noteq> []"
      and "isEmail env (normalizeEmail env (body_email body))"
      and "findOne_email_collation env (normalizeEmail env (body_email body)) (users s) = None"
      and "schemaValid env
             (User_create_doc env (users s) (trimField env (body_first_name body))
                (trimField env (body_last_name body)) (normalizeEmail env (body_email body))
                (trimField env (body_password body)) (nullish (body_role body) ''user''))"
  shows "\<exists>f. users (snd (register env now s body)) =
               map f (users s @
                 [User_create_doc env (users s) (trimField env (body_first_name body))
                    (trimField env (body_last_name body)) (normalizeEmail env (body_email body))
                    (trimField env (body_password body)) (nullish (body_role body) ''user'')])
             \<and> (\<forall>v. role (f v) = role v \<and> email (f v) = email v)"
proof -
  let ?d = "User_create_doc env (users s) (trimField env (body_first_name body))
              (trimField env (body_last_name body)) (normalizeEmail env (body_email body))
              (trimField env (body_password body)) (nullish (body_role body) ''user'')"
  show ?thesis
  proof (cases "sendVerificationEmail env ?d now")
    case None
    with assms have "users (snd (register env now s body)) = map id (users s @ [?d])"
      by (simp add: register_def Let_def)
    then show ?thesis
      by (intro exI[of _ id]) simp
  next
    case (Some p)
    obtain tok exp where p: "p = (tok, exp)"
      by (cases p)
    let ?f = "\<lambda>v. if user_id v = user_id ?d then setVerificationToken tok exp v else v"
    from assms Some p have "users (snd (register env now s body)) = map ?f (users s @ [?d])"
      by (simp add: register_def Let_def updateById_def)
    moreover have "\<forall>v. role (?f v) = role v \<and> email (?f v) = email v"
      by (simp add: setVerificationToken_def)
    ultimately show ?thesis
      by blast
  qed
qed

text \<open>
  C1 (amended). For every registration request that passes validation and the
  duplicate-email check and whose document the schema accepts, Register adds exactly one
  user, with the normalized email, whose role is the role supplied in the request body,
  and "user" when the body supplies none.
\<close>

theorem register_role_from_body:
  assumes "trimField env (body_first_name body) \<noteq> []"
      and "trimField env (body_last_name body) \<noteq> []"
      and "normalizeEmail env (body_email body) \<noteq> []"
      and "trimField env (body_password body) \<noteq> []"
      and "isEmail env (normalizeEmail env (body_email body))"
      and "findOne_email_collation env (normalizeEmail env (body_email body)) (users s) = None"
      and "schemaValid env
             (User_create_doc env (users s) (trimField env (body_first_name body))
                (trimField env (body_last_name body)) (normalizeEmail env (body_email body))
                (trimField env (body_password body)) (nullish (body_role body) ''user''))"
  shows "length (users (snd (register env now s body))) = Suc (length (users s))
         \<and> email (last (users (snd (register env now s body)))) = normalizeEmail env (body_email body)
         \<and> role (last (users (snd (register env now s body))))
             = (case body_role body of None \<Rightarrow> ''user'' | Some r \<Rightarrow> r)"
proof -
  let ?d = "User_create_doc env (users s) (trimField env (body_first_name body))
              (trimField env (body_last_name body)) (normalizeEmail env (body_email body))
              (trimField env (body_password body)) (nullish (body_role body) ''user'')"
  from register_created[OF assms, of now]
  obtain f where f: "users (snd (register env now s body)) = map f (users s @ [?d])"
    and keep: "\<forall>v. role (f v) = role v \<and> email (f v) = email v"
    by blast
  have "last (map f (users s @ [?d])) = f ?d"
    by simp
  with f keep show ?thesis
    by (simp add: User_create_doc_def nullish_def)
qed

theorem register_role_from_body_witness:
  "findOne_email_collation example_env (normalizeEmail example_env (body_email (registerBody ''Ann'' ''a@test.com'' None)))
     (users emptyStore) = None
   \<and> isEmail example_env (normalizeEmail example_env (body_email (registerBody ''Ann'' ''a@test.com'' None)))
   \<and> length (users (snd (register example_env 0 emptyStore
                            (registerBody ''Ann'' ''a@test.com'' None)))) = 1
   \<and> role (last (users (snd (register example_env 0 emptyStore
                                 (registerBody ''Ann'' ''a@test.com'' None))))) = ''user''"
  using register_role_from_body
          [where env = example_env and s = emptyStore and now = 0
             and body = "registerBody ''Ann'' ''a@test.com'' None"]
  by (simp add: string_eval example_eval findOne_email_collation_def)

text \<open>
  A valid registration whose body carries the role "admin" is answered 201 and stores
  the user with role "admin", not "user".
\<close>

theorem register_role_counterexample:
  "statusCode (fst (register example_env 0 emptyStore
                      (registerBody ''Ann'' ''a@test.com'' (Some ''admin'')))) = 201
   \<and> map role (users (snd (register example_env 0 emptyStore
                      (registerBody ''Ann'' ''a@test.com'' (Some ''admin''))))) = [''admin'']
   \<and> ''admin'' \<noteq> ''user''"
  by (simp add: register_def string_eval example_eval findOne_email_collation_def
                User_create_doc_def updateById_def setVerificationToken_def)

text \<open>
  C4 (amended). Letter case is that of \<open>toLowerCase\<close>, and the platform keeps
  \<open>stringLaws\<close> and \<open>collationLaws\<close>. For every stored user whose email is trimmed (as
  Register stores it) and every registration request whose email differs from that
  user's email at most in letter case, Register fails with status 400 and leaves the
  store unchanged. The message is "All fields are required" when a required field is
  blank after trimming, else "Invalid email format" when the normalized email is not
  well-formed, else "Email already registered".
\<close>

theorem register_duplicate_email_any_case:
  assumes "stringLaws env" and "collationLaws env"
      and "u \<in> set (users s)"
      and "body_email body = Some e"
      and "toLowerCase env e = toLowerCase env (email u)"
      and "trim env (email u) = email u"
  shows "statusCode (fst (register env now s body)) = 400
         \<and> snd (register env now s body) = s
         \<and> fst (register env now s body) =
             (if trimField env (body_first_name body) = [] \<or> trimField env (body_last_name body) = []
                 \<or> normalizeEmail env (body_email body) = [] \<or> trimField env (body_password body) = []
              then ErrorResponse ''All fields are required'' 400
              else if \<not> isEmail env (normalizeEmail env (body_email body))
              then ErrorResponse ''Invalid email format'' 400
              else ErrorResponse ''Email already registered'' 400)"
proof -
  have "collationEqual env (email u) (normalizeEmail env (body_email body))"
    using collationEqual_case_variant[OF assms(1,2,5,6)] assms(4) by simp
  with assms(3) have "findOne_email_collation env (normalizeEmail env (body_email body)) (users s) \<noteq> None"
    by (rule findOne_email_collation_finds)
  then obtain v where
    "findOne_email_collation env (normalizeEmail env (body_email body)) (users s) = Some v"
    by blast
  then show ?thesis
    by (simp add: register_def Let_def)
qed

theorem register_duplicate_email_any_case_witness:
  "stringLaws example_env \<and> collationLaws example_env
   \<and> ann \<in> set (users annStore)
   \<and> toLowerCase example_env ''A@Test.com'' = toLowerCase example_env (email ann)
   \<and> trim example_env (email ann) = email ann
   \<and> register example_env 5 annStore (registerBody ''Bob'' ''A@Test.com'' None)
       = (ErrorResponse ''Email already registered'' 400, annStore)"
proof -
  have "fst (register example_env 5 annStore (registerBody ''Bob'' ''A@Test.com'' None))
          = ErrorResponse ''Email already registered'' 400
        \<and> snd (register example_env 5 annStore (registerBody ''Bob'' ''A@Test.com'' None))
          = annStore"
    using register_duplicate_email_any_case
            [OF example_env_stringLaws example_env_collationLaws,
             where u = ann and s = annStore and e = "''A@Test.com''"
               and now = 5 and body = "registerBody ''Bob'' ''A@Test.com'' None"]
    by (simp add: string_eval example_eval)
  then have "register example_env 5 annStore (registerBody ''Bob'' ''A@Test.com'' None)
               = (ErrorResponse ''Email already registered'' 400, annStore)"
    by (simp add: prod_eq_iff)
  then show ?thesis
    using example_env_stringLaws example_env_collationLaws
    by (simp add: string_eval example_eval)
qed

text \<open>
  A request whose email is a case variant of a stored email but whose first name is blank
  is stopped by the required-field check: the message is "All fields are required".
\<close>

theorem register_duplicate_message_counterexample:
  "ann \<in> set (users annStore)
   \<and> toLowerCase example_env ''A@Test.com'' = toLowerCase example_env (email ann)
   \<and> ''A@Test.com'' \<noteq> email ann
   \<and> fst (register example_env 5 annStore (registerBody ''  '' ''A@Test.com'' None))
       = ErrorResponse ''All fields are required'' 400
   \<and> errorMessage (fst (register example_env 5 annStore (registerBody ''  '' ''A@Test.com'' None)))
       \<noteq> Some ''Email already registered''"
  by (simp add: register_def string_eval example_eval)

text \<open>
  Register keeps the stored emails unique up to letter case, trimmed and in lower case:
  it only ever appends a normalized email that the collation lookup did not find.
\<close>

lemma register_emails:
  "map email (users (snd (register env now s body))) = map email (users s)
   \<or> (map email (users (snd (register env now s body)))
        = map email (users s) @ [normalizeEmail env (body_email body)]
      \<and> findOne_email_collation env (normalizeEmail env (body_email body)) (users s) = None)"
  by (auto simp: register_def Let_def updateById_def setVerificationToken_def
                 User_create_doc_def comp_def
           split: option.splits prod.splits)

lemma register_keeps_emails_unique:
  assumes "collationDistinct env (map email (users s))"
  shows "collationDistinct env (map email (users (snd (register env now s body))))"
  using register_emails[of env now s body] assms
  by (auto simp: collationDistinct_append findOne_email_collation_def find_None_iff
                 list_all_iff)

lemma register_keeps_emails_normal:
  assumes "stringLaws env"
      and "list_all (\<lambda>e. trim env e = e \<and> toLowerCase env e = e) (map email (users s))"
  shows "list_all (\<lambda>e. trim env e = e \<and> toLowerCase env e = e)
           (map email (users (snd (register env now s body))))"
  using register_emails[of env now s body] assms(2) normalizeEmail_normal[OF assms(1)]
  by auto

section \<open>Login\<close>

text \<open>
  The answer to a login request does not tell whether its email is known: a request whose
  email matches no stored user is answered exactly as it would be if the email matched a
  user whose password differs.
\<close>

lemma login_failure_independent_of_account:
  assumes "findOne_email_collation env (normalizeEmail env (login_email b)) (users s1) = None"
      and "findOne_email_collation env (normalizeEmail env (login_email b)) (users s2) = Some u"
      and "\<not> matchPassword env (trimField env (login_password b)) u"
  shows "login env s1 b = login env s2 b"
  using assms by (simp add: login_def Let_def)

text \<open>
  C3 (amended). For every pair of login requests that pass input validation (a well-formed
  email and a non-blank password are supplied), one whose email matches no stored user
  and one whose email matches a stored user but whose password does not match, login
  answers both with status 401 and the same message "Invalid credentials".
\<close>

theorem login_uniform_invalid_credentials:
  assumes "normalizeEmail env (login_email b1) \<noteq> []" and "trimField env (login_password b1) \<noteq> []"
      and "isEmail env (normalizeEmail env (login_email b1))"
      and "normalizeEmail env (login_email b2) \<noteq> []" and "trimField env (login_password b2) \<noteq> []"
      and "isEmail env (normalizeEmail env (login_email b2))"
      and "findOne_email_collation env (normalizeEmail env (login_email b1)) (users s) = None"
      and "findOne_email_collation env (normalizeEmail env (login_email b2)) (users s) = Some u"
      and "\<not> matchPassword env (trimField env (login_password b2)) u"
  shows "login env s b1 = ErrorResponse ''Invalid credentials'' 401
         \<and> login env s b2 = ErrorResponse ''Invalid credentials'' 401
         \<and> statusCode (login env s b1) = statusCode (login env s b2)
         \<and> errorMessage (login env s b1) = errorMessage (login env s b2)"
  using assms by (simp add: login_def Let_def)

theorem login_uniform_invalid_credentials_witness:
  "findOne_email_collation example_env (normalizeEmail example_env (login_email (loginBody ''ghost@test.com'' ''Passw0rd!'')))
      (users annStore) = None
   \<and> findOne_email_collation example_env (normalizeEmail example_env (login_email (loginBody ''a@test.com'' ''guess'')))
      (users annStore) = Some ann
   \<and> \<not> matchPassword example_env (trimField example_env (login_password (loginBody ''a@test.com'' ''guess''))) ann
   \<and> login example_env annStore (loginBody ''ghost@test.com'' ''Passw0rd!'')
       = ErrorResponse ''Invalid credentials'' 401
   \<and> login example_env annStore (loginBody ''a@test.com'' ''guess'')
       = ErrorResponse ''Invalid credentials'' 401"
  using login_uniform_invalid_credentials
          [where env = example_env and s = annStore and u = ann
             and ?b1.0 = "loginBody ''ghost@test.com'' ''Passw0rd!''"
             and ?b2.0 = "loginBody ''a@test.com'' ''guess''"]
  by (simp add: string_eval example_eval findOne_email_collation_def)

text \<open>
  A request whose email matches no stored user but whose password is blank is stopped by
  the input check with status 400, while a request for a stored user with a wrong
  password is answered 401.
\<close>

theorem login_uniform_counterexample:
  "findOne_email_collation example_env (normalizeEmail example_env (login_email (loginBody ''ghost@test.com'' ''  '')))
      (users annStore) = None
   \<and> login example_env annStore (loginBody ''ghost@test.com'' ''  '')
       = ErrorResponse ''Please provide an email and password'' 400
   \<and> findOne_email_collation example_env (normalizeEmail example_env (login_email (loginBody ''a@test.com'' ''guess'')))
      (users annStore) = Some ann
   \<and> \<not> matchPassword example_env (trimField example_env (login_password (loginBody ''a@test.com'' ''guess''))) ann
   \<and> login example_env annStore (loginBody ''a@test.com'' ''guess'')
       = ErrorResponse ''Invalid credentials'' 401"
  by (simp add: login_def string_eval example_eval findOne_email_collation_def)

section \<open>Admin login\<close>

lemma adminLogin_success:
  assumes "statusCode (adminLogin env s body) = 200"
  shows "\<exists>u. findOne_email_collation env (normalizeEmail env (login_email body)) (users s) = Some u
             \<and> matchPassword env (trimField env (login_password body)) u
             \<and> checkAdminAccess env (user_id u) = Some True
             \<and> cookiesSet (adminLogin env s body) =
                 [\<lparr>cookie_name = ''admin_token'', cookie_value = generateToken env u,
                   httpOnly = True, secure = Some (production env),
                   sameSite = ''lax'', path = Some ''/'',
                   maxAge = Some thirtyDays, expires = None\<rparr>,
                  \<lparr>cookie_name = ''token'', cookie_value = generateToken env u,
                   httpOnly = True, secure = Some (production env),
                   sameSite = ''lax'', path = Some ''/'',
                   maxAge = Some thirtyDays, expires = None\<rparr>]"
  using assms by (auto simp: adminLogin_def Let_def split: if_splits option.splits)

lemma adminLogin_cookies_only_on_success:
  "statusCode (adminLogin env s body) \<noteq> 200 \<Longrightarrow> cookiesSet (adminLogin env s body) = []"
  by (auto simp: adminLogin_def Let_def split: if_splits option.splits)

text \<open>
  C2. Admin login answers 200, and sets the admin_token cookie, only if the supplied
  credentials match a stored user and the permission check for that user returns true;
  no cookie is set on any other answer. When the credentials are correct but the
  permission check returns false, the answer is 403.
\<close>

theorem adminLogin_requires_permission:
  "(statusCode (adminLogin env s body) = 200 \<longrightarrow>
      (\<exists>u. findOne_email_collation env (normalizeEmail env (login_email body)) (users s) = Some u
           \<and> matchPassword env (trimField env (login_password body)) u
           \<and> checkAdminAccess env (user_id u) = Some True
           \<and> ''admin_token'' \<in> set (map cookie_name (cookiesSet (adminLogin env s body)))))
   \<and> (statusCode (adminLogin env s body) \<noteq> 200 \<longrightarrow> cookiesSet (adminLogin env s body) = [])
   \<and> (normalizeEmail env (login_email body) \<noteq> [] \<and> trimField env (login_password body) \<noteq> []
        \<and> isEmail env (normalizeEmail env (login_email body))
        \<and> findOne_email_collation env (normalizeEmail env (login_email body)) (users s) = Some v
        \<and> matchPassword env (trimField env (login_password body)) v
        \<and> checkAdminAccess env (user_id v) = Some False
      \<longrightarrow> adminLogin env s body = ErrorResponse ''Unauthorized access to admin dashboard'' 403)"
proof (intro conjI impI)
  assume "statusCode (adminLogin env s body) = 200"
  from adminLogin_success[OF this] show
    "\<exists>u. findOne_email_collation env (normalizeEmail env (login_email body)) (users s) = Some u
           \<and> matchPassword env (trimField env (login_password body)) u
           \<and> checkAdminAccess env (user_id u) = Some True
           \<and> ''admin_token'' \<in> set (map cookie_name (cookiesSet (adminLogin env s body)))"
    by auto
next
  assume "statusCode (adminLogin env s body) \<noteq> 200"
  then show "cookiesSet (adminLogin env s body) = []"
    by (rule adminLogin_cookies_only_on_success)
next
  assume "normalizeEmail env (login_email body) \<noteq> [] \<and> trimField env (login_password body) \<noteq> []
        \<and> isEmail env (normalizeEmail env (login_email body))
        \<and> findOne_email_collation env (normalizeEmail env (login_email body)) (users s) = Some v
        \<and> matchPassword env (trimField env (login_password body)) v
        \<and> checkAdminAccess env (user_id v) = Some False"
  then show "adminLogin env s body = ErrorResponse ''Unauthorized access to admin dashboard'' 403"
    by (simp add: adminLogin_def Let_def)
qed

theorem adminLogin_requires_permission_witness:
  "statusCode (adminLogin example_env staffStore (loginBody ''Root@test.com'' ''S3cret!'')) = 200
   \<and> checkAdminAccess example_env (user_id root) = Some True
   \<and> ''admin_token'' \<in> set (map cookie_name
        (cookiesSet (adminLogin example_env staffStore (loginBody ''Root@test.com'' ''S3cret!''))))
   \<and> matchPassword example_env (trimField example_env (login_password (loginBody ''a@test.com'' ''Passw0rd!''))) ann
   \<and> checkAdminAccess example_env (user_id ann) = Some False
   \<and> adminLogin example_env staffStore (loginBody ''a@test.com'' ''Passw0rd!'')
       = ErrorResponse ''Unauthorized access to admin dashboard'' 403"
proof -
  have ok: "statusCode (adminLogin example_env staffStore (loginBody ''Root@test.com'' ''S3cret!'')) = 200"
    by (simp add: adminLogin_def string_eval example_eval findOne_email_collation_def)
  have "''admin_token'' \<in> set (map cookie_name
        (cookiesSet (adminLogin example_env staffStore (loginBody ''Root@test.com'' ''S3cret!''))))"
    using ok adminLogin_requires_permission
                [where env = example_env and s = staffStore
                   and body = "loginBody ''Root@test.com'' ''S3cret!''"]
    by blast
  moreover have "adminLogin example_env staffStore (loginBody ''a@test.com'' ''Passw0rd!'')
                   = ErrorResponse ''Unauthorized access to admin dashboard'' 403"
    using adminLogin_requires_permission
            [where env = example_env and s = staffStore and v = ann
               and body = "loginBody ''a@test.com'' ''Passw0rd!''"]
    by (simp add: string_eval example_eval findOne_email_collation_def)
  ultimately show ?thesis
    using ok by (simp add: string_eval example_eval)
qed

text \<open>
  C9. For every successful admin login, the response sets the admin_token cookie and the
  token cookie, in that order, both to the session token generated for the user found,
  each HTTP-only with a maxAge of 30 days (2592000000 ms).
\<close>

theorem adminLogin_sets_both_cookies:
  assumes "statusCode (adminLogin env s body) = 200"
  shows "\<exists>u. findOne_email_collation env (normalizeEmail env (login_email body)) (users s) = Some u
           \<and> map (\<lambda>c. (cookie_name c, cookie_value c, httpOnly c, maxAge c))
                 (cookiesSet (adminLogin env s body))
               = [(''admin_token'', generateToken env u, True, Some 2592000000),
                  (''token'', generateToken env u, True, Some 2592000000)]"
proof -
  from adminLogin_success[OF assms] obtain u where
    u: "findOne_email_collation env (normalizeEmail env (login_email body)) (users s) = Some u"
    and c: "cookiesSet (adminLogin env s body) =
                 [\<lparr>cookie_name = ''admin_token'', cookie_value = generateToken env u,
                   httpOnly = True, secure = Some (production env),
                   sameSite = ''lax'', path = Some ''/'',
                   maxAge = Some thirtyDays, expires = None\<rparr>,
                  \<lparr>cookie_name = ''token'', cookie_value = generateToken env u,
                   httpOnly = True, secure = Some (production env),
                   sameSite = ''lax'', path = Some ''/'',
                   maxAge = Some thirtyDays, expires = None\<rparr>]"
    by blast
  show ?thesis
    using u c by (simp add: thirtyDays_def)
qed

theorem adminLogin_sets_both_cookies_witness:
  "statusCode (adminLogin example_env staffStore (loginBody ''root@test.com'' '' S3cret! '')) = 200
   \<and> map (\<lambda>c. (cookie_name c, cookie_value c, httpOnly c, maxAge c))
         (cookiesSet (adminLogin example_env staffStore (loginBody ''root@test.com'' '' S3cret! '')))
       = [(''admin_token'', ''jwt:admin1'', True, Some 2592000000),
          (''token'', ''jwt:admin1'', True, Some 2592000000)]"
proof -
  have ok: "statusCode (adminLogin example_env staffStore (loginBody ''root@test.com'' '' S3cret! '')) = 200"
    by (simp add: adminLogin_def string_eval example_eval findOne_email_collation_def)
  have "findOne_email_collation example_env (normalizeEmail example_env (login_email (loginBody ''root@test.com'' '' S3cret! '')))
          (users staffStore) = Some root"
    by (simp add: string_eval example_eval findOne_email_collation_def)
  with adminLogin_sets_both_cookies[OF ok] ok show ?thesis
    by (simp add: example_env_def root_def)
qed

section \<open>Logout\<close>

text \<open>
  C7. Whatever the request carries (any of the token, admin_token and org_token cookies,
  or none), logout sets all three cookies to the empty value with expiry at the epoch,
  and answers 200 with success true.
\<close>

theorem logout_clears_all_cookies:
  "statusCode (logout req) = 200
   \<and> map_option success (responseBody (logout req)) = Some True
   \<and> map (\<lambda>c. (cookie_name c, cookie_value c, expires c, httpOnly c)) (cookiesSet (logout req))
       = [(''token'', [], Some 0, True),
          (''admin_token'', [], Some 0, True),
          (''org_token'', [], Some 0, True)]"
  by (simp add: logout_def expiredCookie_def)

theorem logout_clears_all_cookies_witness:
  "cookies adminSessionRequest ''org_token'' = None
   \<and> statusCode (logout adminSessionRequest) = 200
   \<and> map cookie_name (cookiesSet (logout adminSessionRequest))
       = [''token'', ''admin_token'', ''org_token'']
   \<and> map expires (cookiesSet (logout adminSessionRequest)) = [Some 0, Some 0, Some 0]"
proof -
  have "map (\<lambda>c. (cookie_name c, cookie_value c, expires c, httpOnly c))
          (cookiesSet (logout adminSessionRequest))
        = [(''token'', [], Some 0, True),
           (''admin_token'', [], Some 0, True),
           (''org_token'', [], Some 0, True)]"
    using logout_clears_all_cookies[of adminSessionRequest] by simp
  then have "map (\<lambda>c. (cookie_name c, expires c)) (cookiesSet (logout adminSessionRequest))
               = [(''token'', Some 0), (''admin_token'', Some 0), (''org_token'', Some 0)]"
    by (auto simp: map_eq_Cons_conv)
  then have "map cookie_name (cookiesSet (logout adminSessionRequest))
               = [''token'', ''admin_token'', ''org_token'']
             \<and> map expires (cookiesSet (logout adminSessionRequest)) = [Some 0, Some 0, Some 0]"
    by (auto simp: map_eq_Cons_conv)
  with logout_clears_all_cookies[of adminSessionRequest] show ?thesis
    by (simp add: adminSessionRequest_def)
qed

section \<open>Verify email\<close>

text \<open>
  C5. For every stored user and verification token: a first call with the matching,
  unexpired token answers 200, sets the verified flag and clears the stored token and
  its expiry; any later call presenting the same token for the same user is then
  answered 400 and changes nothing.
\<close>

theorem verifyEmail_token_single_use:
  assumes "findById i (users s) = Some u"
      and "i \<noteq> []" and "isValidObjectId env i"
      and "tok \<noteq> []" and "verificationToken u = Some tok"
      and "\<not> dateAfter now (verificationTokenExpires u)"
  shows "statusCode (fst (verifyEmail env now s (Some tok) (Some i))) = 200
         \<and> (\<exists>u'. findById i (users (snd (verifyEmail env now s (Some tok) (Some i)))) = Some u'
                 \<and> isVerified u' \<and> verificationToken u' = None
                 \<and> verificationTokenExpires u' = None)
         \<and> verifyEmail env later (snd (verifyEmail env now s (Some tok) (Some i)))
             (Some tok) (Some i)
           = (ErrorResponse ''Invalid or expired token'' 400,
              snd (verifyEmail env now s (Some tok) (Some i)))"
proof -
  let ?clear = "\<lambda>u. u\<lparr>isVerified := True, verificationToken := None,
                       verificationTokenExpires := None\<rparr>"
  have uid: "user_id u = i"
    using assms(1) by (rule findById_user_id)
  have first: "verifyEmail env now s (Some tok) (Some i)
                 = (Json 200
                      \<lparr>success = True, data_user = None, data_token = None,
                       message = Some ''Email verified successfully!''\<rparr>
                      [],
                    s\<lparr>users := updateById i ?clear (users s)\<rparr>)"
    using assms uid by (simp add: verifyEmail_def truthy_def select_default_def)
  have found: "findById i (users (snd (verifyEmail env now s (Some tok) (Some i))))
                 = Some (?clear u)"
    using assms(1) by (simp add: first findById_updateById)
  have again: "verifyEmail env later (snd (verifyEmail env now s (Some tok) (Some i)))
                 (Some tok) (Some i)
               = (ErrorResponse ''Invalid or expired token'' 400,
                  snd (verifyEmail env now s (Some tok) (Some i)))"
    using found assms(2,3,4)
    by (simp add: verifyEmail_def [of env later] truthy_def select_default_def)
  show ?thesis
    using found again by (simp add: first)
qed

theorem verifyEmail_token_single_use_witness:
  "findById ''u1'' (users annStore) = Some ann
   \<and> verificationToken ann = Some ''vtok''
   \<and> \<not> dateAfter 500 (verificationTokenExpires ann)
   \<and> statusCode (fst (verifyEmail example_env 500 annStore (Some ''vtok'') (Some ''u1''))) = 200
   \<and> statusCode (fst (verifyEmail example_env 600
                         (snd (verifyEmail example_env 500 annStore (Some ''vtok'') (Some ''u1'')))
                         (Some ''vtok'') (Some ''u1''))) = 400"
  using verifyEmail_token_single_use
          [where env = example_env and s = annStore and u = ann and i = "''u1''"
             and tok = "''vtok''" and now = 500 and later = 600]
  by (simp add: example_eval findById_def dateAfter_def)

section \<open>What the responses carry\<close>

text \<open>
  Every user object returned by register, login, admin login and getMe is without the
  password hash. getMe also leaves out the verification token and its expiry; login and
  admin login return the stored document with only the password removed.
\<close>

lemma register_response_user:
  assumes "fst (register env now s body) = Json c b cs"
  shows "\<exists>u. data_user b = Some u \<and> password u = None"
  using assms
  by (auto simp: register_def Let_def split: if_splits option.splits prod.splits)

lemma login_response_user:
  assumes "login env s body = Json c b cs"
  shows "\<exists>u. findOne_email_collation env (normalizeEmail env (login_email body)) (users s) = Some u
             \<and> data_user b = Some (u\<lparr>password := None\<rparr>)"
  using assms by (auto simp: login_def Let_def split: if_splits option.splits)

lemma adminLogin_response_user:
  assumes "adminLogin env s body = Json c b cs"
  shows "\<exists>u. findOne_email_collation env (normalizeEmail env (login_email body)) (users s) = Some u
             \<and> data_user b = Some (u\<lparr>password := None\<rparr>)"
  using assms by (auto simp: adminLogin_def Let_def split: if_splits option.splits)

lemma getMe_response_user:
  assumes "getMe env s req = Json c b cs"
  shows "\<exists>u. data_user b = Some u \<and> password u = None \<and> verificationToken u = None
             \<and> verificationTokenExpires u = None"
  using assms
  by (auto simp: getMe_def Let_def select_getMe_def split: if_splits option.splits)

text \<open>
  C6. The user object of a response should carry no password hash, no verification
  token and no reset-token field. Login does not keep to it: for a registered user who
  has not verified yet, a login with the right password is answered 200 with a user
  object that has no password but still carries the stored verification token and its
  expiry.
\<close>

theorem login_response_exposes_verificationToken:
  "statusCode (login example_env annStore (loginBody ''a@test.com'' ''Passw0rd!'')) = 200
   \<and> Option.bind (responseBody (login example_env annStore (loginBody ''a@test.com'' ''Passw0rd!'')))
        data_user = Some (ann\<lparr>password := None\<rparr>)
   \<and> verificationToken (ann\<lparr>password := None\<rparr>) = Some ''vtok''
   \<and> verificationTokenExpires (ann\<lparr>password := None\<rparr>) = Some 1000"
  by (simp add: login_def string_eval example_eval findOne_email_collation_def)

section \<open>Routes\<close>

lemma getCurrentUserProfile_protected:
  "http_method req = GET \<Longrightarrow> http_path req = [''me''] \<Longrightarrow> http_cookies req ''token'' = None
   \<Longrightarrow> dispatch env req = Unauthorized"
  by (simp add: router_def dispatch_def matchRoute_def string_eval)

text \<open>
  C8. The route GET /:userId/admin is registered with an empty middleware chain, so
  every GET request for a path of that shape, whatever cookies it carries, reaches the
  getUserByIdAdmin handler with no identity attached.
\<close>

theorem getUserByIdAdmin_unprotected:
  "find (\<lambda>r. route_handler r = getUserByIdAdmin) router =
     Some \<lparr>route_method = GET, route_path = [Param ''userId'', Literal ''admin''],
           route_chain = [], route_handler = getUserByIdAdmin\<rparr>
   \<and> (http_method req = GET \<and> http_path req = [i, a] \<and> i \<noteq> [] \<and> asciiLowerCase a = ''admin''
        \<longrightarrow> dispatch env req = Handled getUserByIdAdmin None)"
proof -
  have lit: "asciiLowerCase ''admin'' = ''admin''"
    by (simp add: string_eval)
  show ?thesis
    by (simp add: router_def dispatch_def matchRoute_def lit)
qed

theorem getUserByIdAdmin_unprotected_witness:
  "http_cookies (anonymousRequest [''42'', ''admin'']) ''token'' = None
   \<and> dispatch example_env (anonymousRequest [''42'', ''admin'']) = Handled getUserByIdAdmin None"
  using getUserByIdAdmin_unprotected
          [where req = "anonymousRequest [''42'', ''admin'']" and i = "''42''" and a = "''admin''"
             and env = example_env]
  by (simp add: anonymousRequest_def string_eval)

section \<open>Forgot password\<close>

text \<open>
  The lookup of Forgot Password succeeds for the stored spellings only, and a request for
  a stored spelling is answered according to the reset mail sent to the first user stored
  with exactly that email.
\<close>

lemma forgotPassword_not_found_iff:
  "fst (forgotPassword env s (Some x)) = ErrorResponse ''User not found'' 404
     \<longleftrightarrow> x \<noteq> [] \<and> x \<notin> set (map email (users s))"
proof (cases "findOne_email x (users s)")
  case None
  then have "x \<notin> set (map email (users s))"
    by (auto simp: findOne_email_def find_None_iff)
  with None show ?thesis
    by (simp add: forgotPassword_def truthy_def)
next
  case (Some u)
  then have "findOne_email x (users s) \<noteq> None"
    by simp
  then have "x \<in> set (map email (users s))"
    by (auto simp: findOne_email_def find_None_iff)
  with Some show ?thesis
    by (auto simp: forgotPassword_def truthy_def split: option.splits reset_mail.splits)
qed

lemma forgotPassword_found:
  assumes "x \<noteq> []" and "find (\<lambda>v. email v = x) (users s) = Some w"
  shows "fst (forgotPassword env s (Some x)) =
           (case sendPasswordResetEmail env (w\<lparr>password := None\<rparr>) of
              MailSent t result \<Rightarrow> Json 200 result []
            | MailError m \<Rightarrow>
                ErrorResponse (''Failed to send password reset email: '' @ m) 500
            | MailFailure \<Rightarrow>
                ErrorResponse ''An unexpected error occurred while sending reset email'' 500)"
  using assms
  by (simp add: forgotPassword_def truthy_def findOne_email_def select_default_def Let_def
           split: reset_mail.splits)

lemma forgotPassword_case_variant_not_stored:
  assumes "collationLaws env"
      and "collationDistinct env (map email (users s))"
      and "u \<in> set (users s)"
      and "e \<noteq> email u"
      and "toLowerCase env e = toLowerCase env (email u)"
  shows "e \<notin> set (map email (users s))"
proof
  assume "e \<in> set (map email (users s))"
  moreover have "email u \<in> set (map email (users s))"
    using assms(3) by simp
  moreover have "collationEqual env e (email u)" and "collationEqual env (email u) e"
    using assms(1,5) by (simp_all add: collationLaws_def)
  ultimately have "e = email u"
    using assms(2) by (meson collationDistinct_clash)
  with assms(4) show False
    by simp
qed

lemma findOne_email_collation_unique:
  assumes "collationLaws env"
      and "collationDistinct env (map email (users s))"
      and "u \<in> set (users s)"
      and "collationEqual env (email u) q"
  shows "findOne_email_collation env q (users s) = Some u"
  unfolding findOne_email_collation_def
proof (rule find_only_match)
  show "u \<in> set (users s)"
    by (fact assms(3))
  show "collationEqual env (email u) q"
    by (fact assms(4))
next
  fix v
  assume v: "v \<in> set (users s)" and vq: "collationEqual env (email v) q"
  have common: "collationEqual env a b"
    if "collationEqual env a c" and "collationEqual env b c" for a b c
    using assms(1) that unfolding collationLaws_def by blast
  have "email v \<in> set (map email (users s))" and "email u \<in> set (map email (users s))"
    using v assms(3) by simp_all
  then have same: "email v = email u"
    using assms(2) common[OF vq assms(4)] common[OF assms(4) vq]
    by (meson collationDistinct_clash)
  have "distinct (map email (users s))"
    using assms(2) collationLaws_refl[OF assms(1)] by (rule collationDistinct_distinct)
  then have "inj_on email (set (users s))"
    by (simp add: distinct_map)
  then show "v = u"
    using same v assms(3) by (rule inj_onD)
qed

text \<open>
  C10. Forgot Password looks the user up by the email exactly as given, with no trimming,
  no lower-casing and no collation: for every request email \<open>x\<close>, the answer is
  "User not found" 404 exactly when \<open>x\<close> is non-empty and no stored email is spelled
  \<open>x\<close>, and when some stored email is spelled \<open>x\<close> the answer is the outcome of the reset
  mail for the first such user. So, in a store whose emails are unique up to letter case
  (letter case being that of \<open>toLowerCase\<close>, under \<open>stringLaws\<close> and \<open>collationLaws\<close>),
  for a stored user with a trimmed email, a request whose email differs from the stored
  one only in letter case is answered 404 and changes nothing, while the lookup of
  Register and Login (normalized email, collation) finds that user for the same email.
\<close>

theorem forgotPassword_exact_email_lookup:
  assumes "stringLaws env" and "collationLaws env"
      and "collationDistinct env (map email (users s))"
      and "u \<in> set (users s)"
      and "e \<noteq> email u"
      and "toLowerCase env e = toLowerCase env (email u)"
      and "trim env (email u) = email u"
  shows "(fst (forgotPassword env s (Some x)) = ErrorResponse ''User not found'' 404
            \<longleftrightarrow> x \<noteq> [] \<and> x \<notin> set (map email (users s)))
         \<and> (x \<noteq> [] \<and> find (\<lambda>v. email v = x) (users s) = Some w \<longrightarrow>
              fst (forgotPassword env s (Some x)) =
                (case sendPasswordResetEmail env (w\<lparr>password := None\<rparr>) of
                   MailSent t result \<Rightarrow> Json 200 result []
                 | MailError m \<Rightarrow>
                     ErrorResponse (''Failed to send password reset email: '' @ m) 500
                 | MailFailure \<Rightarrow>
                     ErrorResponse ''An unexpected error occurred while sending reset email'' 500))
         \<and> forgotPassword env s (Some e) = (ErrorResponse ''User not found'' 404, s)
         \<and> findOne_email_collation env (normalizeEmail env (Some e)) (users s) = Some u"
proof -
  have stored: "e \<notin> set (map email (users s))"
    using assms(2,3,4,5,6) by (rule forgotPassword_case_variant_not_stored)
  have "findOne_email e (users s) = None"
    using stored by (auto simp: findOne_email_def find_None_iff)
  moreover have "e \<noteq> []"
  proof
    assume "e = []"
    with assms(1,6) have "email u = []"
      by (metis stringLaws_def)
    with \<open>e = []\<close> assms(5) show False
      by simp
  qed
  ultimately have miss: "forgotPassword env s (Some e) = (ErrorResponse ''User not found'' 404, s)"
    by (simp add: forgotPassword_def truthy_def)
  have hit: "findOne_email_collation env (normalizeEmail env (Some e)) (users s) = Some u"
    using assms(2,3,4) collationEqual_case_variant[OF assms(1,2,6,7)]
    by (rule findOne_email_collation_unique)
  show ?thesis
    using forgotPassword_not_found_iff[of env s x] forgotPassword_found[of x s w env] miss hit
    by simp
qed


theorem forgotPassword_exact_email_lookup_witness:
  "stringLaws example_env \<and> collationLaws example_env
   \<and> collationDistinct example_env (map email (users annStore))
   \<and> ''A@Test.com'' \<noteq> email ann
   \<and> toLowerCase example_env ''A@Test.com'' = toLowerCase example_env (email ann)
   \<and> forgotPassword example_env annStore (Some ''A@Test.com'')
       = (ErrorResponse ''User not found'' 404, annStore)
   \<and> findOne_email_collation example_env (normalizeEmail example_env (Some ''A@Test.com''))
        (users annStore) = Some ann
   \<and> fst (forgotPassword example_env annStore (Some '' a@test.com''))
       = ErrorResponse ''User not found'' 404
   \<and> statusCode (fst (forgotPassword example_env annStore (Some ''a@test.com''))) = 200"
proof -
  note laws = example_env_stringLaws example_env_collationLaws
  have variant: "forgotPassword example_env annStore (Some ''A@Test.com'')
                   = (ErrorResponse ''User not found'' 404, annStore)
                 \<and> findOne_email_collation example_env
                      (normalizeEmail example_env (Some ''A@Test.com'')) (users annStore) = Some ann"
    using forgotPassword_exact_email_lookup
            [OF laws, where s = annStore and u = ann and e = "''A@Test.com''"]
    by (simp add: string_eval example_eval)
  have padded: "fst (forgotPassword example_env annStore (Some '' a@test.com''))
                  = ErrorResponse ''User not found'' 404"
    using forgotPassword_exact_email_lookup
            [OF laws, where s = annStore and u = ann and e = "''A@Test.com''"
               and x = "'' a@test.com''"]
    by (simp add: string_eval example_eval)
  have stored: "statusCode (fst (forgotPassword example_env annStore (Some ''a@test.com''))) = 200"
    using forgotPassword_exact_email_lookup
            [OF laws, where s = annStore and u = ann and e = "''A@Test.com''"
               and x = "''a@test.com''" and w = ann]
    by (simp add: string_eval example_eval)
  show ?thesis
    using laws variant padded stored by (simp add: string_eval example_eval)
qed

end
